theory Spec2Isabelle
  imports Complex_Main "HOL-Library.Multiset"
begin

section \<open>Strings\<close>

text \<open>
  A Python \<^verbatim>\<open>str\<close> is modelled as a \<^typ>\<open>string\<close>, read as a sequence of code
  points below 256. The type vocabulary of the program is ASCII.
\<close>

text \<open>\<^verbatim>\<open>str.split(sep)\<close> for a separator of one character: the result is never empty.\<close>

fun split_on :: "char \<Rightarrow> string \<Rightarrow> string list" where
  "split_on sep [] = [[]]"
| "split_on sep (c # cs) =
     (if c = sep then [] # split_on sep cs
      else (case split_on sep cs of [] \<Rightarrow> [[c]] | w # ws \<Rightarrow> (c # w) # ws))"

text \<open>The characters \<^verbatim>\<open>str.strip()\<close> removes: Python's whitespace below code point 256.\<close>

definition is_space :: "char \<Rightarrow> bool" where
  "is_space c =
     (let n = (of_char c :: nat)
      in (9 \<le> n \<and> n \<le> 13) \<or> (28 \<le> n \<and> n \<le> 32) \<or> n = 133 \<or> n = 160)"

definition strip :: "string \<Rightarrow> string" where
  "strip s = rev (dropWhile is_space (rev (dropWhile is_space s)))"

text \<open>\<^verbatim>\<open>str.lower()\<close> on code points below 256.\<close>

definition lower_char :: "char \<Rightarrow> char" where
  "lower_char c =
     (let n = (of_char c :: nat)
      in if (65 \<le> n \<and> n \<le> 90) \<or> (192 \<le> n \<and> n \<le> 214) \<or> (216 \<le> n \<and> n \<le> 222)
         then char_of (n + 32) else c)"

definition lower :: "string \<Rightarrow> string" where
  "lower s = map lower_char s"

section \<open>Exceptions\<close>

text \<open>
  Every exception the program can meet, as a value. The comment of each constructor
  gives the Python class and the message it stands for.
\<close>

datatype error =
    NotEnoughValues nat
      \<comment> \<open>ValueError: not enough values to unpack (expected 2, got n)\<close>
  | TooManyValues
      \<comment> \<open>ValueError: too many values to unpack (expected 2)\<close>
  | InvalidOldType string
      \<comment> \<open>ValueError, line 47\<close>
  | InvalidNewType string
      \<comment> \<open>ValueError, line 49\<close>
  | InvalidTargetType string
      \<comment> \<open>ValueError, line 96\<close>
  | ConversionFailed string string string error
      \<comment> \<open>ValueError, line 103: column, source label, target label, cause\<close>
  | InvalidIntLiteral string
      \<comment> \<open>ValueError: invalid literal for int() with base 10\<close>
  | InvalidFloatLiteral string
      \<comment> \<open>ValueError: could not convert string to float\<close>
  | NonFiniteToInt
      \<comment> \<open>pandas IntCastingNaNError, a ValueError: cannot convert non-finite values\<close>
  | NaNToInt
      \<comment> \<open>ValueError: cannot convert float NaN to integer\<close>
  | InfinityToInt
      \<comment> \<open>OverflowError: cannot convert float infinity to integer\<close>
  | IntTooLarge
      \<comment> \<open>OverflowError: Python int too large to convert to C long\<close>
  | IntTooLargeForFloat
      \<comment> \<open>OverflowError: int too large to convert to float\<close>
  | FileNotFoundError string
  | OtherException string
      \<comment> \<open>any other subclass of Exception raised by the file system or the CSV reader\<close>

text \<open>What \<^verbatim>\<open>except ValueError\<close> catches.\<close>

fun is_ValueError :: "error \<Rightarrow> bool" where
  "is_ValueError InfinityToInt = False"
| "is_ValueError IntTooLarge = False"
| "is_ValueError IntTooLargeForFloat = False"
| "is_ValueError (FileNotFoundError _) = False"
| "is_ValueError (OtherException _) = False"
| "is_ValueError _ = True"

section \<open>The type map parser (lines 39 to 55)\<close>

definition vocabulary :: "string list" where
  "vocabulary = [''int'', ''float'', ''str'', ''bool'', ''object'']"

type_synonym type_map = "string \<rightharpoonup> string"

text \<open>
  One pass of the loop body, lines 42 to 49: the tuple assignment raises when the segment
  does not split into two pieces; then the old label is checked before the new one.
\<close>

definition parse_conversion :: "string \<Rightarrow> error + (string \<times> string)" where
  "parse_conversion conversion =
     (case split_on CHR '':'' conversion of
        [a, b] \<Rightarrow>
          (let old_type = lower (strip a); new_type = lower (strip b)
           in if old_type \<notin> set vocabulary then Inl (InvalidOldType old_type)
              else if new_type \<notin> set vocabulary then Inl (InvalidNewType new_type)
              else Inr (old_type, new_type))
      | [a] \<Rightarrow> Inl (NotEnoughValues 1)
      | [] \<Rightarrow> Inl (NotEnoughValues 0)
      | _ \<Rightarrow> Inl TooManyValues)"

text \<open>The loop of line 41 over the segments, with the dictionary built so far.\<close>

fun parse_conversions :: "string list \<Rightarrow> type_map \<Rightarrow> error + type_map" where
  "parse_conversions [] tm = Inr tm"
| "parse_conversions (conversion # rest) tm =
     (case parse_conversion conversion of
        Inl e \<Rightarrow> Inl e
      | Inr (old_type, new_type) \<Rightarrow> parse_conversions rest (tm(old_type \<mapsto> new_type)))"

text \<open>
  Lines 39 to 55. The handler of line 53 logs and raises the same exception again, so
  the result is the loop's.
\<close>

definition parse_type_map :: "string \<Rightarrow> error + type_map" where
  "parse_type_map type_map_str = parse_conversions (split_on CHR '','' type_map_str) Map.empty"

section \<open>Values, columns and tables\<close>

text \<open>
  The table is a pandas DataFrame (pandas 1.x and 2.x) whose columns have the storage
  dtypes \<^verbatim>\<open>pd.read_csv\<close> gives with its default arguments: int64, float64, bool and
  object; its labels are unique. A float64 value is kept as the exact rational it
  denotes, or one of the three special values; rounding to 53 bits and the sign of zero
  are not modelled. The cells of an object column are Python objects. The reader leaves
  text there, and numbers and booleans of columns with missing or mixed entries (a
  missing entry is the float NaN); a table built by another caller of
  \<^verbatim>\<open>generalize_data_type\<close> may hold any object, which is given by what the four
  builtins \<^verbatim>\<open>str\<close>, \<^verbatim>\<open>int\<close>, \<^verbatim>\<open>float\<close> and \<^verbatim>\<open>bool\<close> do on it: return a value or
  raise.
\<close>

datatype pyfloat = Finite rat | PosInf | NegInf | NaN

datatype pyobject =
  PyObject (obj_str: "error + string") (obj_int: "error + int")
    (obj_float: "error + pyfloat") (obj_bool: "error + bool")

datatype cell = StrV string | IntV int | FloatV pyfloat | BoolV bool | ObjV pyobject

datatype column =
    IntCol "int list"
  | FloatCol "pyfloat list"
  | BoolCol "bool list"
  | ObjectCol "cell list"

datatype np_dtype = Int64 | Float64 | Bool | Object

fun dtype :: "column \<Rightarrow> np_dtype" where
  "dtype (IntCol _) = Int64"
| "dtype (FloatCol _) = Float64"
| "dtype (BoolCol _) = Bool"
| "dtype (ObjectCol _) = Object"

text \<open>The cells of a column as Python objects, whatever its storage.\<close>

fun cells :: "column \<Rightarrow> cell list" where
  "cells (IntCol xs) = map IntV xs"
| "cells (FloatCol xs) = map FloatV xs"
| "cells (BoolCol xs) = map BoolV xs"
| "cells (ObjectCol xs) = xs"

text \<open>
  A table: its columns in order, each with its label. The loop of line 57 visits the
  labels in order and reads and writes the column of that label; labels being unique,
  this is the column at the same position.
\<close>

type_synonym dataframe = "(string \<times> column) list"

section \<open>The Python builtins applied to a cell\<close>

definition is_digit :: "char \<Rightarrow> bool" where
  "is_digit c = (let n = (of_char c :: nat) in 48 \<le> n \<and> n \<le> 57)"

definition digit_val :: "char \<Rightarrow> nat" where
  "digit_val c = of_char c - 48"

definition digit_char :: "nat \<Rightarrow> char" where
  "digit_char d = char_of (48 + d)"

fun show_nat :: "nat \<Rightarrow> string" where
  "show_nat n = (if n < 10 then [digit_char n] else show_nat (n div 10) @ [digit_char (n mod 10)])"

declare show_nat.simps [simp del]

definition show_int :: "int \<Rightarrow> string" where
  "show_int i = (if i < 0 then CHR ''-'' # show_nat (nat (- i)) else show_nat (nat i))"

text \<open>
  The digits after the point of a fraction \<open>0 \<le> r < 1\<close>, at least one and at most
  \<open>k + 1\<close> of them.
\<close>

fun frac_digits :: "nat \<Rightarrow> rat \<Rightarrow> string" where
  "frac_digits 0 r = [digit_char (nat \<lfloor>r * 10\<rfloor>)]"
| "frac_digits (Suc k) r =
     (let d = \<lfloor>r * 10\<rfloor>; r' = r * 10 - of_int d
      in digit_char (nat d) # (if r' = 0 then [] else frac_digits k r'))"

text \<open>
  \<^verbatim>\<open>str\<close> of a float, in positional notation: \<^verbatim>\<open>1.0\<close>, \<^verbatim>\<open>2.5\<close>, \<^verbatim>\<open>nan\<close>,
  \<^verbatim>\<open>inf\<close>. The exponent notation Python switches to for very large and very small
  magnitudes is not modelled.
\<close>

fun float_str :: "pyfloat \<Rightarrow> string" where
  "float_str NaN = ''nan''"
| "float_str PosInf = ''inf''"
| "float_str NegInf = ''-inf''"
| "float_str (Finite q) =
     (if q < 0 then ''-'' else []) @ show_nat (nat \<lfloor>\<bar>q\<bar>\<rfloor>) @ ''.''
       @ frac_digits 16 (\<bar>q\<bar> - of_int \<lfloor>\<bar>q\<bar>\<rfloor>)"

fun py_str :: "cell \<Rightarrow> error + string" where
  "py_str (StrV s) = Inr s"
| "py_str (IntV i) = Inr (show_int i)"
| "py_str (FloatV f) = Inr (float_str f)"
| "py_str (BoolV b) = Inr (if b then ''True'' else ''False'')"
| "py_str (ObjV x) = obj_str x"

text \<open>Truth values: zero and the empty text are false, NaN is true.\<close>

fun float_bool :: "pyfloat \<Rightarrow> bool" where
  "float_bool (Finite q) = (q \<noteq> 0)"
| "float_bool _ = True"

fun py_bool :: "cell \<Rightarrow> error + bool" where
  "py_bool (StrV s) = Inr (s \<noteq> [])"
| "py_bool (IntV i) = Inr (i \<noteq> 0)"
| "py_bool (FloatV f) = Inr (float_bool f)"
| "py_bool (BoolV b) = Inr b"
| "py_bool (ObjV x) = obj_bool x"

text \<open>
  The whitespace \<^verbatim>\<open>int\<close> and \<^verbatim>\<open>float\<close> skip around a literal: the ASCII whitespace
  and the two spaces of the code points from 128 to 255. Unlike \<^verbatim>\<open>str.strip()\<close> they
  do not skip the separators 28 to 31.
\<close>

definition is_number_space :: "char \<Rightarrow> bool" where
  "is_number_space c =
     (let n = (of_char c :: nat) in (9 \<le> n \<and> n \<le> 13) \<or> n = 32 \<or> n = 133 \<or> n = 160)"

definition strip_number :: "string \<Rightarrow> string" where
  "strip_number s = rev (dropWhile is_number_space (rev (dropWhile is_number_space s)))"

text \<open>
  A digit part of a numeric literal: digits, with single underscores allowed between
  two digits. The result is the list of digit values.
\<close>

fun digitpart :: "string \<Rightarrow> nat list option" where
  "digitpart [] = None"
| "digitpart [c] = (if is_digit c then Some [digit_val c] else None)"
| "digitpart (c # d # cs) =
     (if is_digit c
      then map_option (Cons (digit_val c)) (digitpart (if d = CHR ''_'' then cs else d # cs))
      else None)"

definition digits_value :: "nat list \<Rightarrow> nat" where
  "digits_value ds = foldl (\<lambda>a d. 10 * a + d) 0 ds"

text \<open>An optional sign in front of a literal: whether it is negative, and the rest.\<close>

fun split_sign :: "string \<Rightarrow> bool \<times> string" where
  "split_sign [] = (False, [])"
| "split_sign (c # cs) =
     (if c = CHR ''-'' then (True, cs) else if c = CHR ''+'' then (False, cs) else (False, c # cs))"

text \<open>
  \<^verbatim>\<open>int(s)\<close> for a text, base 10. The limit on the number of digits that Python 3.11
  adds is not modelled.
\<close>

definition int_of_str :: "string \<Rightarrow> error + int" where
  "int_of_str s =
     (case split_sign (strip_number s) of (neg, body) \<Rightarrow>
        (case digitpart body of
           None \<Rightarrow> Inl (InvalidIntLiteral s)
         | Some ds \<Rightarrow> Inr (if neg then - int (digits_value ds) else int (digits_value ds))))"

definition parse_mantissa :: "string \<Rightarrow> rat option" where
  "parse_mantissa m =
     (case split_on CHR ''.'' m of
        [i] \<Rightarrow> map_option (\<lambda>ds. of_nat (digits_value ds)) (digitpart i)
      | [i, f] \<Rightarrow>
          (if i = [] \<and> f = [] then None
           else (case (if i = [] then Some [] else digitpart i,
                       if f = [] then Some [] else digitpart f) of
                   (Some a, Some b) \<Rightarrow>
                     Some (of_nat (digits_value a) + of_nat (digits_value b) / 10 ^ length b)
                 | _ \<Rightarrow> None))
      | _ \<Rightarrow> None)"

definition parse_exponent :: "string \<Rightarrow> int option" where
  "parse_exponent x =
     (case split_sign x of (neg, body) \<Rightarrow>
        map_option (\<lambda>ds. if neg then - int (digits_value ds) else int (digits_value ds))
          (digitpart body))"

text \<open>
  The least magnitude that rounds to an infinity: half way between the largest float64
  and \<open>2 ^ 1024\<close>.
\<close>

definition float_overflow :: rat where
  "float_overflow = 2 ^ 1024 - 2 ^ 970"

text \<open>
  \<^verbatim>\<open>float(s)\<close> for a text, with the exact decimal value of the literal, or an infinity
  when the value is too large for a float64.
\<close>

definition float_of_str :: "string \<Rightarrow> error + pyfloat" where
  "float_of_str s =
     (case split_sign (strip_number s) of (neg, body) \<Rightarrow>
        (let b = lower body
         in if b = ''inf'' \<or> b = ''infinity'' then Inr (if neg then NegInf else PosInf)
            else if b = ''nan'' then Inr NaN
            else (case (case split_on CHR ''e'' b of
                          [m] \<Rightarrow> parse_mantissa m
                        | [m, x] \<Rightarrow>
                            (case (parse_mantissa m, parse_exponent x) of
                               (Some q, Some k) \<Rightarrow> Some (q * 10 powi k)
                             | _ \<Rightarrow> None)
                        | _ \<Rightarrow> None) of
                    None \<Rightarrow> Inl (InvalidFloatLiteral s)
                  | Some q \<Rightarrow>
                      Inr (if float_overflow \<le> q then (if neg then NegInf else PosInf)
                           else Finite (if neg then - q else q)))))"

fun py_float :: "cell \<Rightarrow> error + pyfloat" where
  "py_float (StrV s) = float_of_str s"
| "py_float (IntV i) =
     (if float_overflow \<le> \<bar>of_int i\<bar> then Inl IntTooLargeForFloat else Inr (Finite (of_int i)))"
| "py_float (FloatV f) = Inr f"
| "py_float (BoolV b) = Inr (Finite (if b then 1 else 0))"
| "py_float (ObjV x) = obj_float x"

definition int64_min :: int where
  "int64_min = - (2 ^ 63)"

definition int64_max :: int where
  "int64_max = 2 ^ 63 - 1"

text \<open>Storing a Python integer in an int64 array raises when it does not fit.\<close>

definition to_int64 :: "int \<Rightarrow> error + int" where
  "to_int64 i = (if int64_min \<le> i \<and> i \<le> int64_max then Inr i else Inl IntTooLarge)"

text \<open>Truncation toward zero.\<close>

definition trunc :: "rat \<Rightarrow> int" where
  "trunc q = (if 0 \<le> q then \<lfloor>q\<rfloor> else \<lceil>q\<rceil>)"

text \<open>\<^verbatim>\<open>int(x)\<close> of a cell, stored as int64.\<close>

fun py_int :: "cell \<Rightarrow> error + int" where
  "py_int (StrV s) = (case int_of_str s of Inl e \<Rightarrow> Inl e | Inr i \<Rightarrow> to_int64 i)"
| "py_int (IntV i) = to_int64 i"
| "py_int (FloatV (Finite q)) = to_int64 (trunc q)"
| "py_int (FloatV NaN) = Inl NaNToInt"
| "py_int (FloatV _) = Inl InfinityToInt"
| "py_int (BoolV b) = Inr (if b then 1 else 0)"
| "py_int (ObjV x) = (case obj_int x of Inl e \<Rightarrow> Inl e | Inr i \<Rightarrow> to_int64 i)"

section \<open>The casts of pandas: \<^verbatim>\<open>Series.astype\<close>\<close>

text \<open>A cast that converts cell by cell raises at the first cell that fails.\<close>

fun map_result :: "('a \<Rightarrow> error + 'b) \<Rightarrow> 'a list \<Rightarrow> error + 'b list" where
  "map_result f [] = Inr []"
| "map_result f (x # xs) =
     (case f x of
        Inl e \<Rightarrow> Inl e
      | Inr y \<Rightarrow> (case map_result f xs of Inl e \<Rightarrow> Inl e | Inr ys \<Rightarrow> Inr (y # ys)))"

text \<open>
  \<^verbatim>\<open>astype(str)\<close>: every cell becomes its text, \<^verbatim>\<open>str(x)\<close>; the result has dtype
  object.
\<close>

definition astype_str :: "column \<Rightarrow> error + column" where
  "astype_str s =
     (case map_result py_str (cells s) of
        Inl e \<Rightarrow> Inl e
      | Inr ts \<Rightarrow> Inr (ObjectCol (map StrV ts)))"

text \<open>\<^verbatim>\<open>astype(float)\<close>: the cells of an object column go through \<^verbatim>\<open>float(x)\<close>.\<close>

fun astype_float :: "column \<Rightarrow> error + column" where
  "astype_float (IntCol xs) = Inr (FloatCol (map (\<lambda>i. Finite (of_int i)) xs))"
| "astype_float (FloatCol xs) = Inr (FloatCol xs)"
| "astype_float (BoolCol xs) = Inr (FloatCol (map (\<lambda>b. Finite (if b then 1 else 0)) xs))"
| "astype_float (ObjectCol xs) =
     (case map_result py_float xs of Inl e \<Rightarrow> Inl e | Inr ys \<Rightarrow> Inr (FloatCol ys))"

fun is_finite :: "pyfloat \<Rightarrow> bool" where
  "is_finite (Finite _) = True"
| "is_finite _ = False"

text \<open>
  A finite float64 stored as int64: truncated toward zero. Outside the range of int64
  the C conversion is undefined; on x86-64 it gives the least int64.
\<close>

fun float_to_int64 :: "pyfloat \<Rightarrow> int" where
  "float_to_int64 (Finite q) =
     (if int64_min \<le> trunc q \<and> trunc q \<le> int64_max then trunc q else int64_min)"
| "float_to_int64 _ = int64_min"

text \<open>
  \<^verbatim>\<open>astype(int)\<close>: pandas refuses a float column with a NaN or an infinity; the cells
  of an object column go through \<^verbatim>\<open>int(x)\<close>.
\<close>

fun astype_int :: "column \<Rightarrow> error + column" where
  "astype_int (IntCol xs) = Inr (IntCol xs)"
| "astype_int (FloatCol xs) =
     (if list_all is_finite xs then Inr (IntCol (map float_to_int64 xs)) else Inl NonFiniteToInt)"
| "astype_int (BoolCol xs) = Inr (IntCol (map (\<lambda>b. if b then 1 else 0) xs))"
| "astype_int (ObjectCol xs) =
     (case map_result py_int xs of Inl e \<Rightarrow> Inl e | Inr ys \<Rightarrow> Inr (IntCol ys))"

text \<open>\<^verbatim>\<open>astype(bool)\<close>: the truth value of every cell, \<^verbatim>\<open>bool(x)\<close>.\<close>

definition astype_bool :: "column \<Rightarrow> error + column" where
  "astype_bool s =
     (case map_result py_bool (cells s) of
        Inl e \<Rightarrow> Inl e
      | Inr bs \<Rightarrow> Inr (BoolCol bs))"

section \<open>The column generalizer (lines 57 to 106)\<close>

text \<open>
  Lines 58 to 78: the label of a column, and the column as the inference leaves it. An
  object column is overwritten with its text rendering (line 64); the handler of line 66
  catches every exception.
\<close>

definition infer_type :: "column \<Rightarrow> column \<times> string" where
  "infer_type s =
     (if dtype s = Object then
        (case astype_str s of
           Inr s' \<Rightarrow> (s', ''str'')
         | Inl e \<Rightarrow> (s, ''object''))
      else if dtype s = Int64 then (s, ''int'')
      else if dtype s = Float64 then (s, ''float'')
      else if dtype s = Bool then (s, ''bool'')
      else (s, ''object''))"

text \<open>Lines 84 to 96: the cast chosen by the target label.\<close>

definition cast_column :: "string \<Rightarrow> column \<Rightarrow> error + column" where
  "cast_column new_type s =
     (if new_type = ''float'' then astype_float s
      else if new_type = ''str'' then astype_str s
      else if new_type = ''int'' then astype_int s
      else if new_type = ''bool'' then astype_bool s
      else if new_type = ''object'' then Inr s
      else Inl (InvalidTargetType new_type))"

text \<open>
  Lines 83 to 103: a ValueError of the cast is raised again as the conversion error of
  line 103; any other exception passes through.
\<close>

definition convert_column :: "string \<Rightarrow> string \<Rightarrow> string \<Rightarrow> column \<Rightarrow> error + column" where
  "convert_column col col_type_name new_type s =
     (case cast_column new_type s of
        Inl e \<Rightarrow>
          Inl (if is_ValueError e then ConversionFailed col col_type_name new_type e else e)
      | Inr s' \<Rightarrow> Inr s')"

text \<open>
  One pass of the loop body, lines 58 to 103, on the column \<open>col\<close>: the column as the
  pass leaves it in the table, and the exception it raises, if any. A cast that raises
  assigns nothing, so the column stays as the inference left it.
\<close>

definition generalize_column :: "type_map \<Rightarrow> string \<times> column \<Rightarrow> (string \<times> column) \<times> error option" where
  "generalize_column tm c =
     (case c of (col, s) \<Rightarrow>
        (case infer_type s of (s1, col_type_name) \<Rightarrow>
           (case tm col_type_name of
              None \<Rightarrow> ((col, s1), None)
            | Some new_type \<Rightarrow>
                (case convert_column col col_type_name new_type s1 of
                   Inl e \<Rightarrow> ((col, s1), Some e)
                 | Inr s2 \<Rightarrow> ((col, s2), None)))))"

text \<open>
  The loop of line 57. The table is changed in place: the result is the table as the
  loop leaves it, and the exception that ended it, if any. The columns after the one
  that raises are not visited.
\<close>

fun generalize_columns :: "type_map \<Rightarrow> dataframe \<Rightarrow> dataframe \<times> error option" where
  "generalize_columns tm [] = ([], None)"
| "generalize_columns tm (c # rest) =
     (case generalize_column tm c of
        (c', Some e) \<Rightarrow> (c' # rest, Some e)
      | (c', None) \<Rightarrow>
          (case generalize_columns tm rest of (rest', r) \<Rightarrow> (c' # rest', r)))"

text \<open>
  Lines 27 to 106. The type map is parsed first; when that raises, no column has been
  visited. With no exception the function returns the table itself.
\<close>

definition generalize_data_type :: "dataframe \<Rightarrow> string \<Rightarrow> dataframe \<times> error option" where
  "generalize_data_type df type_map_str =
     (case parse_type_map type_map_str of
        Inl e \<Rightarrow> (df, Some e)
      | Inr tm \<Rightarrow> generalize_columns tm df)"

section \<open>The command line program (lines 109 to 146)\<close>

text \<open>
  What the program meets outside: whether a path exists, what \<^verbatim>\<open>pd.read_csv\<close>
  gives for a path (a table or an exception), and whether writing to a path succeeds.
\<close>

record world =
  path_exists :: "string \<Rightarrow> bool"
  read_csv :: "string \<Rightarrow> error + dataframe"
  to_csv_ok :: "string \<Rightarrow> bool"

text \<open>The calls that touch files, in the order the program makes them.\<close>

datatype io_event = ReadCsv string | ToCsv string dataframe

text \<open>
  \<^verbatim>\<open>main\<close> with the parsed arguments: the exit code and the file calls made. Each of
  the three handlers of lines 137 to 146 ends in \<^verbatim>\<open>sys.exit(1)\<close>, and every exception
  of the model is caught by one of them.
\<close>

definition main :: "world \<Rightarrow> string \<Rightarrow> string \<Rightarrow> string \<Rightarrow> nat \<times> io_event list" where
  "main w input_file output_file type_map_str =
     (if \<not> path_exists w input_file then (1, [])
      else
        (case read_csv w input_file of
           Inl e \<Rightarrow> (1, [ReadCsv input_file])
         | Inr df \<Rightarrow>
             (case generalize_data_type df type_map_str of
                (df', Some e) \<Rightarrow> (1, [ReadCsv input_file])
              | (df', None) \<Rightarrow>
                  (if to_csv_ok w output_file
                   then (0, [ReadCsv input_file, ToCsv output_file df'])
                   else (1, [ReadCsv input_file, ToCsv output_file df'])))))"

section \<open>Notions the properties are stated with\<close>

text \<open>
  The cast requested for a column raises: the label inferred for the column is a key of
  the type map, and casting the column, as the inference leaves it, to the target of
  that key raises.
\<close>

definition cast_fails :: "type_map \<Rightarrow> column \<Rightarrow> bool" where
  "cast_fails tm s =
     (case infer_type s of (s1, col_type_name) \<Rightarrow>
        (case tm col_type_name of
           None \<Rightarrow> False
         | Some new_type \<Rightarrow> (case cast_column new_type s1 of Inl e \<Rightarrow> True | Inr s2 \<Rightarrow> False)))"

text \<open>A world in which every path exists, reads as the table \<open>df\<close> and can be written.\<close>

definition readable_world :: "dataframe \<Rightarrow> world" where
  "readable_world df =
     \<lparr>path_exists = (\<lambda>p. True), read_csv = (\<lambda>p. Inr df), to_csv_ok = (\<lambda>p. True)\<rparr>"

text \<open>Whether a file call writes.\<close>

fun is_write :: "io_event \<Rightarrow> bool" where
  "is_write (ToCsv p df) = True"
| "is_write (ReadCsv p) = False"

text \<open>
  The words of the specification about the type map string: a segment is well formed
  when it splits on the colon into exactly two pieces; its tokens are the pieces, trimmed
  and in lower case; it is accepted when it is well formed with both tokens in the
  vocabulary, and then it stands for the pair of its tokens.
\<close>

definition well_formed :: "string \<Rightarrow> bool" where
  "well_formed seg = (length (split_on CHR '':'' seg) = 2)"

definition tokens :: "string \<Rightarrow> string list" where
  "tokens seg = map (\<lambda>t. lower (strip t)) (split_on CHR '':'' seg)"

definition segment_ok :: "string \<Rightarrow> bool" where
  "segment_ok seg = (well_formed seg \<and> list_all (\<lambda>t. t \<in> set vocabulary) (tokens seg))"

definition source_label :: "string \<Rightarrow> string" where
  "source_label seg = tokens seg ! 0"

definition target_label :: "string \<Rightarrow> string" where
  "target_label seg = tokens seg ! 1"

definition segment_pair :: "string \<Rightarrow> string \<times> string" where
  "segment_pair seg = (source_label seg, target_label seg)"

text \<open>The two malformed-mapping errors: the unpacking errors of line 42.\<close>

fun is_unpack_error :: "error \<Rightarrow> bool" where
  "is_unpack_error (NotEnoughValues n) = True"
| "is_unpack_error TooManyValues = True"
| "is_unpack_error _ = False"

text \<open>The message of an exception, \<^verbatim>\<open>str(e)\<close>.\<close>

fun message :: "error \<Rightarrow> string" where
  "message (NotEnoughValues n) =
     ''not enough values to unpack (expected 2, got '' @ show_nat n @ '')''"
| "message TooManyValues = ''too many values to unpack (expected 2)''"
| "message (InvalidOldType t) =
     ''Invalid old type: '' @ t @ ''. Supported types are: int, float, str, bool, object.''"
| "message (InvalidNewType t) =
     ''Invalid new type: '' @ t @ ''. Supported types are: int, float, str, bool, object.''"
| "message (InvalidTargetType t) = ''Invalid new type: '' @ t"
| "message (ConversionFailed col old_type new_type e) =
     ''Failed to convert column '' @ [CHR 0x27] @ col @ [CHR 0x27] @ '' from '' @ old_type
       @ '' to '' @ new_type @ '': '' @ message e"
| "message (InvalidIntLiteral s) =
     ''invalid literal for int() with base 10: '' @ [CHR 0x27] @ s @ [CHR 0x27]"
| "message (InvalidFloatLiteral s) =
     ''could not convert string to float: '' @ [CHR 0x27] @ s @ [CHR 0x27]"
| "message NonFiniteToInt = ''Cannot convert non-finite values (NA or inf) to integer''"
| "message NaNToInt = ''cannot convert float NaN to integer''"
| "message InfinityToInt = ''cannot convert float infinity to integer''"
| "message IntTooLarge = ''Python int too large to convert to C long''"
| "message IntTooLargeForFloat = ''int too large to convert to float''"
| "message (FileNotFoundError p) = p"
| "message (OtherException m) = m"

text \<open>The vocabulary as the messages of lines 47 and 49 list it.\<close>

fun comma_join :: "string list \<Rightarrow> string" where
  "comma_join [] = []"
| "comma_join [w] = w"
| "comma_join (w # ws) = w @ '', '' @ comma_join ws"

text \<open>
  The grammar of a digit part, as the Python reference gives it: a digit, then any
  number of digits, each with at most one underscore in front of it. The second argument
  is the list of the digits.
\<close>

inductive digit_part :: "string \<Rightarrow> nat list \<Rightarrow> bool" where
  single: "is_digit c \<Longrightarrow> digit_part [c] [digit_val c]"
| next_digit: "is_digit c \<Longrightarrow> digit_part cs ds \<Longrightarrow> digit_part (c # cs) (digit_val c # ds)"
| underscore:
    "is_digit c \<Longrightarrow> digit_part cs ds \<Longrightarrow> digit_part (c # CHR ''_'' # cs) (digit_val c # ds)"






section \<open>Evaluation and basic facts\<close>

lemmas string_eval =
  lower_def strip_def is_space_def lower_char_def char_of_def bit_Suc_0_iff

lemmas parse_eval =
  parse_type_map_def parse_conversion_def vocabulary_def string_eval

lemma split_on_not_Nil: "split_on sep s \<noteq> []"
  by (induction s) (auto split: list.splits)

lemma parse_empty: "parse_type_map [] = Inl (NotEnoughValues 1)"
  by (simp add: parse_type_map_def parse_conversion_def)

lemma parse_int_float: "parse_type_map ''int:float'' = Inr [''int'' \<mapsto> ''float'']"
  by (simp add: parse_eval)

lemma generalize_data_type_parse_error:
  "parse_type_map s = Inl e \<Longrightarrow> generalize_data_type df s = (df, Some e)"
  by (simp add: generalize_data_type_def)

lemma generalize_data_type_parsed:
  "parse_type_map s = Inr tm \<Longrightarrow> generalize_data_type df s = generalize_columns tm df"
  by (simp add: generalize_data_type_def)

subsection \<open>The loop over the columns\<close>

lemma generalize_columns_length: "length (fst (generalize_columns tm df)) = length df"
  by (induction df) (auto split: prod.splits option.splits)

lemma generalize_columns_all_ok:
  "(\<forall>c\<in>set df. snd (generalize_column tm c) = None) \<Longrightarrow>
   generalize_columns tm df = (map (\<lambda>c. fst (generalize_column tm c)) df, None)"
  by (induction df) (auto split: prod.splits option.splits)

lemma generalize_columns_ok_iff:
  "snd (generalize_columns tm df) = None \<longleftrightarrow>
   (\<forall>c\<in>set df. snd (generalize_column tm c) = None)"
  by (induction df) (auto split: prod.splits option.splits)

lemma generalize_columns_first_failure:
  assumes "\<forall>c\<in>set pre. snd (generalize_column tm c) = None"
    and "snd (generalize_column tm c) = Some e"
  shows "generalize_columns tm (pre @ c # post) =
         (map (\<lambda>c. fst (generalize_column tm c)) pre @ fst (generalize_column tm c) # post, Some e)"
  using assms by (induction pre) (auto split: prod.splits option.splits)

subsection \<open>The inference step\<close>

lemma map_result_StrV: "map_result py_str (map StrV ts) = Inr ts"
  by (induction ts) simp_all

lemma infer_type_cases:
  "infer_type (IntCol xs) = (IntCol xs, ''int'')"
  "infer_type (FloatCol ys) = (FloatCol ys, ''float'')"
  "infer_type (BoolCol bs) = (BoolCol bs, ''bool'')"
  by (simp_all add: infer_type_def)

lemma infer_type_object:
  "infer_type (ObjectCol cs) =
     (case map_result py_str cs of
        Inl e \<Rightarrow> (ObjectCol cs, ''object'')
      | Inr ts \<Rightarrow> (ObjectCol (map StrV ts), ''str''))"
  by (simp add: infer_type_def astype_str_def split: sum.splits)

lemma infer_type_text: "infer_type (ObjectCol (map StrV ts)) = (ObjectCol (map StrV ts), ''str'')"
  by (simp add: infer_type_object map_result_StrV)

lemma infer_type_idem: "infer_type (fst (infer_type s)) = infer_type s"
proof (cases s)
  case (ObjectCol cs)
  then show ?thesis
    by (cases "map_result py_str cs") (simp_all add: infer_type_object map_result_StrV)
qed (simp_all add: infer_type_cases)

section \<open>The claims\<close>

text \<open>
  C9. For the empty string as the type map, parsing fails with the unpacking error of
  line 42 (the one empty segment gives one piece where two are needed): the generalizer
  raises it for every table, before the loop over the columns, and the table is left as
  it was.
\<close>

theorem empty_type_map_rejected:
  "generalize_data_type df [] = (df, Some (NotEnoughValues 1)) \<and>
   parse_type_map [] = Inl (NotEnoughValues 1) \<and> is_ValueError (NotEnoughValues 1)"
  by (simp add: generalize_data_type_def parse_empty)

theorem empty_type_map_rejected_witness:
  "generalize_data_type [(''a'', IntCol [1, 2])] [] =
     ([(''a'', IntCol [1, 2])], Some (NotEnoughValues 1))"
  using empty_type_map_rejected [of "[(''a'', IntCol [1, 2])]"] by simp



subsection \<open>One pass of the loop body\<close>

lemma generalize_column_label: "fst (fst (generalize_column tm (col, s))) = col"
  by (cases "infer_type s")
    (simp add: generalize_column_def convert_column_def split: option.splits sum.splits)

lemma generalize_column_unmapped:
  "tm (snd (infer_type s)) = None \<Longrightarrow>
   generalize_column tm (col, s) = ((col, fst (infer_type s)), None)"
  by (cases "infer_type s") (simp add: generalize_column_def)

lemma generalize_column_mapped:
  "tm (snd (infer_type s)) = Some t \<Longrightarrow>
   generalize_column tm (col, s) =
     (case cast_column t (fst (infer_type s)) of
        Inl e \<Rightarrow>
          ((col, fst (infer_type s)),
           Some (if is_ValueError e then ConversionFailed col (snd (infer_type s)) t e else e))
      | Inr s2 \<Rightarrow> ((col, s2), None))"
  by (cases "infer_type s")
    (simp add: generalize_column_def convert_column_def split: sum.splits)

lemma cast_fails_iff: "cast_fails tm s \<longleftrightarrow> snd (generalize_column tm (col, s)) \<noteq> None"
  by (cases "infer_type s")
    (simp add: cast_fails_def generalize_column_def convert_column_def
      split: option.splits sum.splits)

lemma typed_column_unmapped_unchanged:
  "dtype s \<noteq> Object \<Longrightarrow> tm (snd (infer_type s)) = None \<Longrightarrow>
   generalize_column tm (col, s) = ((col, s), None)"
  by (cases s) (simp_all add: generalize_column_unmapped infer_type_cases)





text \<open>
  What a run that returns does to each column: the table keeps its length and its
  labels, and each column is the column as the inference leaves it when its label is no
  key of the type map, and otherwise the cast of that column to the target of its label.
  The target is not looked up again: with \<^verbatim>\<open>int:float,float:str\<close> an int column ends
  as float64. A column of dtype int64, float64 or bool is left by the inference as it
  was loaded, so it is cast at most once.
\<close>

lemma run_is_columnwise:
  assumes "parse_type_map type_map_str = Inr tm"
    and "generalize_data_type df type_map_str = (df', None)"
  shows "length df' = length df \<and>
    (\<forall>i<length df.
       fst (df' ! i) = fst (df ! i) \<and>
       (case tm (snd (infer_type (snd (df ! i)))) of
          None \<Rightarrow> snd (df' ! i) = fst (infer_type (snd (df ! i)))
        | Some new_type \<Rightarrow>
            cast_column new_type (fst (infer_type (snd (df ! i)))) = Inr (snd (df' ! i)))) \<and>
    generalize_data_type [(col, IntCol xs)] ''int:float,float:str'' =
      ([(col, FloatCol (map (\<lambda>i. Finite (of_int i)) xs))], None)"
proof -
  let ?g = "\<lambda>c. fst (generalize_column tm c)"
  have run: "generalize_columns tm df = (df', None)"
    using assms by (simp add: generalize_data_type_parsed)
  then have ok: "\<forall>c\<in>set df. snd (generalize_column tm c) = None"
    using generalize_columns_ok_iff [of tm df] by simp
  then have df': "df' = map ?g df"
    using run generalize_columns_all_ok [of df tm] by simp
  have col: "fst (?g c) = fst c \<and>
      (case tm (snd (infer_type (snd c))) of
         None \<Rightarrow> snd (?g c) = fst (infer_type (snd c))
       | Some new_type \<Rightarrow> cast_column new_type (fst (infer_type (snd c))) = Inr (snd (?g c)))"
    if "c \<in> set df" for c
  proof (cases c)
    case (Pair name s)
    have none: "snd (generalize_column tm (name, s)) = None"
      using ok that Pair by auto
    show ?thesis
    proof (cases "tm (snd (infer_type s))")
      case None
      then show ?thesis
        using Pair by (simp add: generalize_column_unmapped)
    next
      case (Some t)
      then show ?thesis
        using Pair none by (simp add: generalize_column_mapped split: sum.splits)
    qed
  qed
  have example: "generalize_data_type [(col, IntCol xs)] ''int:float,float:str'' =
      ([(col, FloatCol (map (\<lambda>i. Finite (of_int i)) xs))], None)"
    by (simp add: generalize_data_type_def parse_eval generalize_column_def infer_type_cases
        convert_column_def cast_column_def)
  have len: "length df' = length df"
    by (simp add: df')
  have each: "\<forall>i<length df.
       fst (df' ! i) = fst (df ! i) \<and>
       (case tm (snd (infer_type (snd (df ! i)))) of
          None \<Rightarrow> snd (df' ! i) = fst (infer_type (snd (df ! i)))
        | Some new_type \<Rightarrow>
            cast_column new_type (fst (infer_type (snd (df ! i)))) = Inr (snd (df' ! i)))"
  proof (intro allI impI)
    fix i
    assume i: "i < length df"
    then have "df ! i \<in> set df" and nth: "df' ! i = ?g (df ! i)"
      by (simp_all add: df')
    from col [OF this(1)] show "fst (df' ! i) = fst (df ! i) \<and>
       (case tm (snd (infer_type (snd (df ! i)))) of
          None \<Rightarrow> snd (df' ! i) = fst (infer_type (snd (df ! i)))
        | Some new_type \<Rightarrow>
            cast_column new_type (fst (infer_type (snd (df ! i)))) = Inr (snd (df' ! i)))"
      by (simp add: nth cong: option.case_cong)
  qed
  from len each example show ?thesis
    by blast
qed

text \<open>
  C10 at a table the program can load (a column of booleans with a missing entry, which
  the reader stores as an object column with NaN): with the type map \<^verbatim>\<open>str:bool\<close> the
  column is cast twice, to text by the inference (line 64) and then to bool (line 91).
  The run returns all cells true, where the one cast to bool of the loaded column keeps
  the false cell.
\<close>

theorem object_column_cast_twice:
  "infer_type (ObjectCol [BoolV True, FloatV NaN, BoolV False]) =
     (ObjectCol [StrV ''True'', StrV ''nan'', StrV ''False''], ''str'') \<and>
   parse_type_map ''str:bool'' = Inr [''str'' \<mapsto> ''bool''] \<and>
   cast_column ''bool'' (ObjectCol [BoolV True, FloatV NaN, BoolV False]) =
     Inr (BoolCol [True, True, False]) \<and>
   cast_column ''bool'' (ObjectCol [StrV ''True'', StrV ''nan'', StrV ''False'']) =
     Inr (BoolCol [True, True, True]) \<and>
   generalize_data_type
       [(''a'', ObjectCol [BoolV True, FloatV NaN, BoolV False]), (''b'', IntCol [1, 2, 3])]
       ''str:bool'' =
     ([(''a'', BoolCol [True, True, True]), (''b'', IntCol [1, 2, 3])], None)"
proof -
  have p: "parse_type_map ''str:bool'' = Inr [''str'' \<mapsto> ''bool'']"
    by (simp add: parse_eval)
  have i: "infer_type (ObjectCol [BoolV True, FloatV NaN, BoolV False]) =
     (ObjectCol [StrV ''True'', StrV ''nan'', StrV ''False''], ''str'')"
    by (simp add: infer_type_object)
  have c: "cast_column ''bool'' (ObjectCol [StrV ''True'', StrV ''nan'', StrV ''False'']) =
     Inr (BoolCol [True, True, True])"
    by (simp add: cast_column_def astype_bool_def)
  have l: "cast_column ''bool'' (ObjectCol [BoolV True, FloatV NaN, BoolV False]) =
     Inr (BoolCol [True, True, False])"
    by (simp add: cast_column_def astype_bool_def)
  have "generalize_data_type
       [(''a'', ObjectCol [BoolV True, FloatV NaN, BoolV False]), (''b'', IntCol [1, 2, 3])]
       ''str:bool'' =
     ([(''a'', BoolCol [True, True, True]), (''b'', IntCol [1, 2, 3])], None)"
    by (simp add: generalize_data_type_parsed [OF p] generalize_column_def i c
        infer_type_cases convert_column_def)
  with p i c l show ?thesis
    by simp
qed

lemma generalize_column_failed:
  "snd (generalize_column tm (col, s)) = Some e \<Longrightarrow>
   fst (generalize_column tm (col, s)) = (col, fst (infer_type s))"
  by (cases "infer_type s")
    (simp add: generalize_column_def convert_column_def split: option.splits sum.splits)

subsection \<open>The program\<close>

lemma main_generalize_failed:
  assumes "path_exists w input_file" and "read_csv w input_file = Inr df"
    and "snd (generalize_data_type df type_map_str) = Some e"
  shows "main w input_file output_file type_map_str = (1, [ReadCsv input_file])"
  using assms by (cases "generalize_data_type df type_map_str") (simp add: main_def)

text \<open>
  C6. In a run that loads a table and parses the type map, when the cast requested for
  some column raises, the program exits with code 1 and its only file call is the read
  of the input, so nothing is written. The loop stops at the first such column: the
  columns before it have been processed, the column itself stays as the inference left
  it, and the columns after it are as they were loaded.
\<close>

theorem failed_cast_aborts_run:
  assumes "path_exists w input_file"
    and "read_csv w input_file = Inr df"
    and "parse_type_map type_map_str = Inr tm"
    and "\<exists>c\<in>set df. cast_fails tm (snd c)"
  shows "fst (main w input_file output_file type_map_str) = 1 \<and>
    snd (main w input_file output_file type_map_str) = [ReadCsv input_file] \<and>
    \<not> list_ex is_write (snd (main w input_file output_file type_map_str)) \<and>
    (\<exists>pre c post e.
       df = pre @ c # post \<and> \<not> list_ex (\<lambda>x. cast_fails tm (snd x)) pre \<and>
       cast_fails tm (snd c) \<and>
       generalize_data_type df type_map_str =
         (map (\<lambda>x. fst (generalize_column tm x)) pre @ (fst c, fst (infer_type (snd c))) # post,
          Some e))"
proof -
  from assms(4) obtain pre c post where
    split: "df = pre @ c # post" and c: "cast_fails tm (snd c)"
    and pre: "\<forall>x\<in>set pre. \<not> cast_fails tm (snd x)"
    using split_list_first_prop [of df "\<lambda>c. cast_fails tm (snd c)"] by blast
  obtain col s where cs: "c = (col, s)"
    by (cases c)
  from c cs obtain e where e: "snd (generalize_column tm c) = Some e"
    using cast_fails_iff [of tm s col] by auto
  have ok: "\<forall>x\<in>set pre. snd (generalize_column tm x) = None"
  proof
    fix x
    assume "x \<in> set pre"
    with pre have "\<not> cast_fails tm (snd x)"
      by simp
    then show "snd (generalize_column tm x) = None"
      using cast_fails_iff [of tm "snd x" "fst x"] by simp
  qed
  have kept: "fst (generalize_column tm c) = (fst c, fst (infer_type (snd c)))"
    using e cs generalize_column_failed [of tm col s e] by simp
  have run: "generalize_data_type df type_map_str =
      (map (\<lambda>x. fst (generalize_column tm x)) pre @ (fst c, fst (infer_type (snd c))) # post,
       Some e)"
    using generalize_columns_first_failure [OF ok e, of post] assms(3)
    by (simp add: generalize_data_type_parsed split kept)
  then have "snd (generalize_data_type df type_map_str) = Some e"
    by simp
  from main_generalize_failed [OF assms(1) assms(2) this]
  have m: "main w input_file output_file type_map_str = (1, [ReadCsv input_file])" .
  have "\<not> list_ex (\<lambda>x. cast_fails tm (snd x)) pre"
    using pre by (simp add: list_ex_iff)
  with split c run have "\<exists>pre c post e.
       df = pre @ c # post \<and> \<not> list_ex (\<lambda>x. cast_fails tm (snd x)) pre \<and>
       cast_fails tm (snd c) \<and>
       generalize_data_type df type_map_str =
         (map (\<lambda>x. fst (generalize_column tm x)) pre @ (fst c, fst (infer_type (snd c))) # post,
          Some e)"
    by blast
  then show ?thesis
    by (simp add: m)
qed

theorem failed_cast_aborts_run_witness:
  "main (readable_world
        [(''a'', ObjectCol [StrV [CHR ''1'', CHR ''2'', CHR 0x1F]]), (''b'', FloatCol [NaN])])
       ''in.csv'' ''out.csv'' ''str:int,float:int'' = (1, [ReadCsv ''in.csv'']) \<and>
   cast_fails [''str'' \<mapsto> ''int'', ''float'' \<mapsto> ''int'']
     (ObjectCol [StrV [CHR ''1'', CHR ''2'', CHR 0x1F]]) \<and>
   generalize_data_type
       [(''a'', ObjectCol [StrV [CHR ''1'', CHR ''2'', CHR 0x1F]]), (''b'', FloatCol [NaN])]
       ''str:int,float:int'' =
     ([(''a'', ObjectCol [StrV [CHR ''1'', CHR ''2'', CHR 0x1F]]), (''b'', FloatCol [NaN])],
      Some (ConversionFailed ''a'' ''str'' ''int''
              (InvalidIntLiteral [CHR ''1'', CHR ''2'', CHR 0x1F])))"
proof -
  let ?t = "[CHR ''1'', CHR ''2'', CHR 0x1F]"
  let ?tm = "[''str'' \<mapsto> ''int'', ''float'' \<mapsto> ''int'']"
  let ?df = "[(''a'', ObjectCol [StrV ?t]), (''b'', FloatCol [NaN])]"
  have p: "parse_type_map ''str:int,float:int'' = Inr ?tm"
    by (simp add: parse_eval)
  have i: "infer_type (ObjectCol [StrV ?t]) = (ObjectCol [StrV ?t], ''str'')"
    using infer_type_text [of "[?t]"] by simp
  have c: "cast_column ''int'' (ObjectCol [StrV ?t]) = Inl (InvalidIntLiteral ?t)"
    by code_simp
  have f: "cast_fails ?tm (ObjectCol [StrV ?t])"
    by (simp add: cast_fails_def i c)
  then have some: "\<exists>c\<in>set ?df. cast_fails ?tm (snd c)"
    by simp
  have run: "generalize_data_type ?df ''str:int,float:int'' =
      (?df, Some (ConversionFailed ''a'' ''str'' ''int'' (InvalidIntLiteral ?t)))"
    by (simp add: generalize_data_type_parsed [OF p] generalize_column_def i c convert_column_def)
  have "path_exists (readable_world ?df) ''in.csv''"
    and "read_csv (readable_world ?df) ''in.csv'' = Inr ?df"
    by (simp_all add: readable_world_def)
  from failed_cast_aborts_run [OF this p some, of "''out.csv''"] f run show ?thesis
    by (cases "main (readable_world ?df) ''in.csv'' ''out.csv'' ''str:int,float:int''") simp
qed

text \<open>
  C2 as stated fails: the type map is parsed inside the generalizer, which runs after
  the table has been loaded. With an input that exists and the malformed type map
  \<^verbatim>\<open>int-float\<close>, the program has read the input file when it exits.
\<close>

theorem bad_type_map_after_read_counterexample:
  "parse_type_map ''int-float'' = Inl (NotEnoughValues 1) \<and>
   main (readable_world [(''a'', IntCol [1])]) ''in.csv'' ''out.csv'' ''int-float'' =
     (1, [ReadCsv ''in.csv'']) \<and>
   snd (main (readable_world [(''a'', IntCol [1])]) ''in.csv'' ''out.csv'' ''int-float'') \<noteq> []"
  by (simp add: main_def readable_world_def generalize_data_type_def parse_type_map_def
      parse_conversion_def)

text \<open>
  C2, amended. When the type map string fails the check of the parser, the program
  exits with code 1 and writes nothing; the failure comes after the input file has been
  read: the file calls of the run are the read of the input when the input path exists,
  and none otherwise.
\<close>

theorem bad_type_map_exits_without_write:
  "parse_type_map type_map_str = Inl e \<Longrightarrow>
   fst (main w input_file output_file type_map_str) = 1 \<and>
   snd (main w input_file output_file type_map_str) =
     (if path_exists w input_file then [ReadCsv input_file] else []) \<and>
   \<not> list_ex is_write (snd (main w input_file output_file type_map_str))"
  by (simp add: main_def generalize_data_type_def split: sum.splits)

theorem bad_type_map_exits_without_write_witness:
  "parse_type_map ''int:colour'' = Inl (InvalidNewType ''colour'') \<and>
   main (readable_world [(''a'', IntCol [1])]) ''in.csv'' ''out.csv'' ''int:colour'' =
     (1, [ReadCsv ''in.csv''])"
proof -
  have p: "parse_type_map ''int:colour'' = Inl (InvalidNewType ''colour'')"
    by (simp add: parse_eval)
  from bad_type_map_exits_without_write [OF p, of "readable_world [(''a'', IntCol [1])]"
      "''in.csv''" "''out.csv''"] p
  show ?thesis
    by (cases "main (readable_world [(''a'', IntCol [1])]) ''in.csv'' ''out.csv'' ''int:colour''")
      (simp add: readable_world_def)
qed

text \<open>
  C1 at a table the program can load (a text column with a missing entry, which the
  reader stores as NaN in an object column): the label \<^verbatim>\<open>str\<close> of the column is no
  key of the type map \<^verbatim>\<open>int:float\<close>, and still the run returns the column with the
  missing entry replaced by the text \<^verbatim>\<open>nan\<close>.
\<close>

theorem unmapped_object_column_rewritten:
  "snd (infer_type (ObjectCol [StrV ''foo'', FloatV NaN])) = ''str'' \<and>
   parse_type_map ''int:float'' = Inr [''int'' \<mapsto> ''float''] \<and>
   [''int'' \<mapsto> ''float''] ''str'' = None \<and>
   generalize_data_type [(''a'', ObjectCol [StrV ''foo'', FloatV NaN]), (''b'', IntCol [1, 2])]
       ''int:float'' =
     ([(''a'', ObjectCol [StrV ''foo'', StrV ''nan'']), (''b'', FloatCol [Finite 1, Finite 2])],
      None)"
  by (simp add: generalize_data_type_parsed [OF parse_int_float] parse_int_float
      generalize_column_def infer_type_cases infer_type_object convert_column_def
      cast_column_def)

subsection \<open>The parser, segment by segment\<close>

lemma parse_conversion_ok:
  "segment_ok seg \<Longrightarrow> parse_conversion seg = Inr (segment_pair seg)"
  by (auto simp: segment_ok_def well_formed_def tokens_def parse_conversion_def segment_pair_def
      source_label_def target_label_def Let_def length_Suc_conv numeral_2_eq_2
      split: list.splits)

lemma parse_conversion_Inr_ok:
  "parse_conversion seg = Inr p \<Longrightarrow> segment_ok seg"
  by (auto simp: segment_ok_def well_formed_def tokens_def parse_conversion_def Let_def
      split: list.splits if_splits)

lemma parse_conversion_not_ok:
  "\<not> segment_ok seg \<Longrightarrow> \<exists>e. parse_conversion seg = Inl e"
  using parse_conversion_Inr_ok [of seg] by (cases "parse_conversion seg") auto

lemma parse_conversion_malformed:
  "\<not> well_formed seg \<Longrightarrow> parse_conversion seg = Inl e \<Longrightarrow> is_unpack_error e"
  by (auto simp: well_formed_def parse_conversion_def Let_def split: list.splits if_splits)

lemma parse_conversion_bad_token:
  "well_formed seg \<Longrightarrow> \<not> segment_ok seg \<Longrightarrow>
   parse_conversion seg =
     Inl (if source_label seg \<notin> set vocabulary then InvalidOldType (source_label seg)
          else InvalidNewType (target_label seg))"
  by (auto simp: segment_ok_def well_formed_def tokens_def parse_conversion_def Let_def
      source_label_def target_label_def length_Suc_conv numeral_2_eq_2 split: list.splits)

lemma parse_conversions_ok:
  "list_all segment_ok segs \<Longrightarrow>
   parse_conversions segs tm = Inr (tm ++ map_of (rev (map segment_pair segs)))"
proof (induction segs arbitrary: tm)
  case Nil
  then show ?case by simp
next
  case (Cons seg segs)
  then have "parse_conversion seg = Inr (source_label seg, target_label seg)"
    by (simp add: parse_conversion_ok segment_pair_def)
  with Cons show ?case
    by (simp add: segment_pair_def map_add_upd_left [symmetric] del: map_add_upd_left)
qed

lemma parse_conversions_first_bad:
  "list_all segment_ok pre \<Longrightarrow> parse_conversion bad = Inl e \<Longrightarrow>
   parse_conversions (pre @ bad # post) tm = Inl e"
proof (induction pre arbitrary: tm)
  case Nil
  then show ?case by simp
next
  case (Cons seg pre)
  then have "parse_conversion seg = Inr (segment_pair seg)"
    by (simp add: parse_conversion_ok)
  with Cons show ?case
    by (cases "segment_pair seg") simp
qed

lemma parse_conversions_Inr_ok:
  "parse_conversions segs tm0 = Inr tm \<Longrightarrow> list_all segment_ok segs"
proof (induction segs arbitrary: tm0)
  case Nil
  then show ?case by simp
next
  case (Cons seg segs)
  then show ?case
    by (auto split: sum.splits prod.splits dest: parse_conversion_Inr_ok)
qed

lemma parse_type_map_ok:
  "list_all segment_ok (split_on CHR '','' s) \<Longrightarrow>
   parse_type_map s = Inr (map_of (rev (map segment_pair (split_on CHR '','' s))))"
  by (simp add: parse_type_map_def parse_conversions_ok)

lemma parse_type_map_Inr:
  assumes "parse_type_map s = Inr tm"
  shows "list_all segment_ok (split_on CHR '','' s)"
    and "tm = map_of (rev (map segment_pair (split_on CHR '','' s)))"
proof -
  show ok: "list_all segment_ok (split_on CHR '','' s)"
    using assms parse_conversions_Inr_ok by (simp add: parse_type_map_def)
  from parse_type_map_ok [OF ok] assms
  show "tm = map_of (rev (map segment_pair (split_on CHR '','' s)))"
    by simp
qed

text \<open>
  C4 as stated fails: the loop of line 41 raises at the first segment that is rejected,
  so the error is the one of that segment, whatever the later segments hold. In
  \<^verbatim>\<open>foo:int,bar\<close> the segment \<^verbatim>\<open>bar\<close> does not split in two, and the error is the invalid
  old type \<^verbatim>\<open>foo\<close>; in \<^verbatim>\<open>int-float,foo:bar\<close> the token \<^verbatim>\<open>foo\<close> is outside the
  vocabulary, and the error is the unpacking error of the first segment.
\<close>

theorem parse_error_kind_counterexample:
  "split_on CHR '','' ''foo:int,bar'' = [''foo:int'', ''bar''] \<and> \<not> well_formed ''bar'' \<and>
   parse_type_map ''foo:int,bar'' = Inl (InvalidOldType ''foo'') \<and>
   \<not> is_unpack_error (InvalidOldType ''foo'') \<and>
   split_on CHR '','' ''int-float,foo:bar'' = [''int-float'', ''foo:bar''] \<and>
   tokens ''foo:bar'' = [''foo'', ''bar''] \<and> ''foo'' \<notin> set vocabulary \<and>
   parse_type_map ''int-float,foo:bar'' = Inl (NotEnoughValues 1) \<and>
   is_unpack_error (NotEnoughValues 1)"
  by (simp add: parse_eval well_formed_def tokens_def)

text \<open>
  C4, amended. The parser succeeds exactly when every comma separated segment is
  accepted, and then gives the mapping from old to new label, a later segment
  overwriting an earlier one with the same old label. Otherwise it fails with the error
  of the first segment that is not accepted: an unpacking error (the malformed-mapping
  error) when that segment does not split on the colon into exactly two tokens, and
  otherwise the invalid type error of its old token, if that is outside the vocabulary,
  else of its new token; the message of an invalid type error holds the token, trimmed
  and in lower case, and the whole vocabulary.
\<close>

theorem parse_type_map_first_offender:
  "(list_all segment_ok (split_on CHR '','' s) \<longrightarrow>
      parse_type_map s = Inr (map_of (rev (map segment_pair (split_on CHR '','' s))))) \<and>
   (split_on CHR '','' s = pre @ bad # post \<and> list_all segment_ok pre \<and> \<not> segment_ok bad \<longrightarrow>
      (\<exists>e. parse_type_map s = Inl e \<and>
         (if well_formed bad
          then e = (if source_label bad \<notin> set vocabulary then InvalidOldType (source_label bad)
                    else InvalidNewType (target_label bad))
          else is_unpack_error e))) \<and>
   message (InvalidOldType t) =
     ''Invalid old type: '' @ t @ ''. Supported types are: '' @ comma_join vocabulary @ ''.'' \<and>
   message (InvalidNewType t) =
     ''Invalid new type: '' @ t @ ''. Supported types are: '' @ comma_join vocabulary @ ''.''"
proof -
  have bad: "\<exists>e. parse_type_map s = Inl e \<and>
         (if well_formed bad
          then e = (if source_label bad \<notin> set vocabulary then InvalidOldType (source_label bad)
                    else InvalidNewType (target_label bad))
          else is_unpack_error e)"
    if split: "split_on CHR '','' s = pre @ bad # post" and pre: "list_all segment_ok pre"
      and nok: "\<not> segment_ok bad"
  proof -
    from parse_conversion_not_ok [OF nok] obtain e where e: "parse_conversion bad = Inl e"
      by blast
    have p: "parse_type_map s = Inl e"
      using parse_conversions_first_bad [OF pre e] by (simp add: parse_type_map_def split)
    show ?thesis
    proof (cases "well_formed bad")
      case True
      with parse_conversion_bad_token [OF True nok] e p show ?thesis
        by simp
    next
      case False
      with parse_conversion_malformed [OF False e] p show ?thesis
        by simp
    qed
  qed
  have msg: "comma_join vocabulary = ''int, float, str, bool, object''"
    by (simp add: vocabulary_def)
  show ?thesis
    using bad parse_type_map_ok [of s] by (simp add: msg)
qed

theorem parse_type_map_first_offender_witness:
  "parse_type_map '' INT : Float ,bool:str'' = Inr [''int'' \<mapsto> ''float'', ''bool'' \<mapsto> ''str''] \<and>
   parse_type_map ''int:float,int:colour,bar'' = Inl (InvalidNewType ''colour'') \<and>
   parse_type_map ''int:float,a:b:c'' = Inl TooManyValues"
proof -
  have s1: "split_on CHR '','' '' INT : Float ,bool:str'' = ['' INT : Float '', ''bool:str'']"
    by simp
  have ok1: "list_all segment_ok ['' INT : Float '', ''bool:str'']"
    by (simp add: segment_ok_def well_formed_def tokens_def vocabulary_def string_eval)
  have pairs: "segment_pair '' INT : Float '' = (''int'', ''float'')"
    "segment_pair ''bool:str'' = (''bool'', ''str'')"
    by (simp_all add: segment_pair_def source_label_def target_label_def tokens_def string_eval)
  have m: "map_of [(''bool'', ''str''), (''int'', ''float'')] =
      [''int'' \<mapsto> ''float'', ''bool'' \<mapsto> ''str'']"
    by (rule ext) simp
  have s2: "split_on CHR '','' ''int:float,int:colour,bar'' = [''int:float''] @ ''int:colour'' # [''bar'']"
    by simp
  have ok2: "list_all segment_ok [''int:float'']"
    by (simp add: segment_ok_def well_formed_def tokens_def vocabulary_def string_eval)
  have bad2: "\<not> segment_ok ''int:colour''" "well_formed ''int:colour''"
    "source_label ''int:colour'' \<in> set vocabulary" "target_label ''int:colour'' = ''colour''"
    by (simp_all add: segment_ok_def well_formed_def tokens_def vocabulary_def string_eval
        source_label_def target_label_def)
  have s3: "split_on CHR '','' ''int:float,a:b:c'' = [''int:float''] @ ''a:b:c'' # []"
    by simp
  have bad3: "\<not> segment_ok ''a:b:c''" "\<not> well_formed ''a:b:c''"
    by (simp_all add: segment_ok_def well_formed_def)
  have three: "parse_type_map ''int:float,a:b:c'' = Inl TooManyValues"
    by (simp add: parse_eval)
  from parse_type_map_first_offender [of "'' INT : Float ,bool:str''"] ok1
  have one: "parse_type_map '' INT : Float ,bool:str'' = Inr [''int'' \<mapsto> ''float'', ''bool'' \<mapsto> ''str'']"
    unfolding s1 by (simp add: pairs m)
  from parse_type_map_first_offender [of "''int:float,int:colour,bar''" "[''int:float'']"
      "''int:colour''" "[''bar'']"] s2 ok2 bad2
  have two: "parse_type_map ''int:float,int:colour,bar'' = Inl (InvalidNewType ''colour'')"
    by auto
  from one two three show ?thesis
    by simp
qed

lemma fst_segment_pair: "map fst (map segment_pair segs) = map source_label segs"
  by (simp add: segment_pair_def comp_def)

text \<open>
  C7. For a type map string the parser accepts: a string whose comma separated segments
  are a permutation of its segments gives the same mapping when the old labels of the
  segments are pairwise distinct; and for a segment whose old label is not the old label
  of any later segment, the mapping sends that label to the new label of this segment,
  so of several segments with one old label the last decides.
\<close>

theorem segment_order_irrelevant:
  assumes "parse_type_map s = Inr tm"
  shows "(mset (split_on CHR '','' s') = mset (split_on CHR '','' s) \<and>
          distinct (map source_label (split_on CHR '','' s)) \<longrightarrow>
            parse_type_map s' = Inr tm) \<and>
         (split_on CHR '','' s = pre @ seg # post \<and>
          source_label seg \<notin> set (map source_label post) \<longrightarrow>
            tm (source_label seg) = Some (target_label seg))"
proof -
  let ?segs = "split_on CHR '','' s"
  let ?segs' = "split_on CHR '','' s'"
  from parse_type_map_Inr [OF assms]
  have ok: "list_all segment_ok ?segs" and tm: "tm = map_of (rev (map segment_pair ?segs))"
    by simp_all
  have perm: "parse_type_map s' = Inr tm"
    if m: "mset ?segs' = mset ?segs" and d: "distinct (map source_label ?segs)"
  proof -
    from m have sets: "set ?segs' = set ?segs"
      by (rule mset_eq_setD)
    with ok have "list_all segment_ok ?segs'"
      by (simp add: list_all_iff)
    then have p: "parse_type_map s' = Inr (map_of (rev (map segment_pair ?segs')))"
      by (rule parse_type_map_ok)
    from m have "mset (map source_label ?segs') = mset (map source_label ?segs)"
      by (metis mset_map)
    with d have d': "distinct (map source_label ?segs')"
      using mset_eq_imp_distinct_iff by blast
    have "map_of (rev (map segment_pair ?segs')) = map_of (rev (map segment_pair ?segs))"
    proof (rule map_of_inject_set [THEN iffD2])
      show "distinct (map fst (rev (map segment_pair ?segs')))"
        using d' by (simp add: rev_map [symmetric] fst_segment_pair del: map_map)
      show "distinct (map fst (rev (map segment_pair ?segs)))"
        using d by (simp add: rev_map [symmetric] fst_segment_pair del: map_map)
      show "set (rev (map segment_pair ?segs')) = set (rev (map segment_pair ?segs))"
        using sets by simp
    qed
    with p tm show ?thesis
      by simp
  qed
  have last: "tm (source_label seg) = Some (target_label seg)"
    if split: "?segs = pre @ seg # post" and later: "source_label seg \<notin> set (map source_label post)"
  proof -
    have "map_of (rev (map segment_pair post)) (source_label seg) = None"
      using later by (simp add: map_of_eq_None_iff image_image segment_pair_def)
    then show ?thesis
      by (simp add: tm split map_add_def segment_pair_def)
  qed
  from perm last show ?thesis
    by blast
qed

theorem segment_order_irrelevant_witness:
  "parse_type_map ''int:float,bool:str'' = Inr [''int'' \<mapsto> ''float'', ''bool'' \<mapsto> ''str''] \<and>
   parse_type_map ''bool:str,int:float'' = Inr [''int'' \<mapsto> ''float'', ''bool'' \<mapsto> ''str''] \<and>
   parse_type_map ''int:float,int:str'' = Inr [''int'' \<mapsto> ''str''] \<and>
   [''int'' \<mapsto> ''str''] ''int'' = Some ''str''"
proof -
  have p1: "parse_type_map ''int:float,bool:str'' = Inr [''int'' \<mapsto> ''float'', ''bool'' \<mapsto> ''str'']"
    by (simp add: parse_eval)
  have p2: "parse_type_map ''int:float,int:str'' = Inr [''int'' \<mapsto> ''str'']"
    by (simp add: parse_eval)
  have labels: "source_label ''int:float'' = ''int''" "source_label ''bool:str'' = ''bool''"
    "source_label ''int:str'' = ''int''" "target_label ''int:str'' = ''str''"
    by (simp_all add: source_label_def target_label_def tokens_def string_eval)
  have s1: "split_on CHR '','' ''int:float,bool:str'' = [''int:float'', ''bool:str'']"
    and s1': "split_on CHR '','' ''bool:str,int:float'' = [''bool:str'', ''int:float'']"
    and s2: "split_on CHR '','' ''int:float,int:str'' = [''int:float''] @ ''int:str'' # []"
    by simp_all
  from segment_order_irrelevant [OF p1, of "''bool:str,int:float''"]
  have swapped: "parse_type_map ''bool:str,int:float'' = Inr [''int'' \<mapsto> ''float'', ''bool'' \<mapsto> ''str'']"
    unfolding s1 s1' by (simp add: labels)
  from segment_order_irrelevant [OF p2, of _ "[''int:float'']" "''int:str''" "[]"] s2
  have "[''int'' \<mapsto> ''str''] (source_label ''int:str'') = Some (target_label ''int:str'')"
    by simp
  with p1 p2 swapped show ?thesis
    by (simp add: labels)
qed

subsection \<open>Integer literals\<close>

lemma digit_not_underscore: "is_digit c \<Longrightarrow> c \<noteq> CHR ''_''"
  by (auto simp add: is_digit_def)




lemma digit_part_ends: "digit_part s ds \<Longrightarrow> s \<noteq> [] \<and> is_digit (hd s) \<and> is_digit (last s)"
  by (induction rule: digit_part.induct) auto

text \<open>The recognizer of the cast accepts exactly the digit parts of the grammar.\<close>

lemma digit_part_digitpart: "digit_part s ds \<Longrightarrow> digitpart s = Some ds"
proof (induction rule: digit_part.induct)
  case (single c)
  then show ?case
    by simp
next
  case (next_digit c cs ds)
  from next_digit(2) have "cs \<noteq> []" and "is_digit (hd cs)"
    using digit_part_ends by blast+
  then obtain d cs' where "cs = d # cs'" and "is_digit d"
    by (cases cs) auto
  with next_digit show ?case
    by (simp add: digit_not_underscore)
next
  case (underscore c cs ds)
  then show ?case
    by simp
qed

lemma digitpart_digit_part: "digitpart s = Some ds \<Longrightarrow> digit_part s ds"
proof (induction s arbitrary: ds rule: digitpart.induct)
  case 1
  then show ?case
    by simp
next
  case (2 c)
  then show ?case
    by (auto split: if_splits intro: digit_part.single)
next
  case (3 c d cs)
  from 3(2) have c: "is_digit c"
    by (simp split: if_splits)
  with 3(2) obtain ds' where
    rest: "digitpart (if d = CHR ''_'' then cs else d # cs) = Some ds'"
    and ds: "ds = digit_val c # ds'"
    by auto
  from 3(1) [OF c rest] have "digit_part (if d = CHR ''_'' then cs else d # cs) ds'" .
  with c ds show ?case
    by (auto split: if_splits intro: digit_part.next_digit digit_part.underscore)
qed

lemma digitpart_iff: "digitpart s = Some ds \<longleftrightarrow> digit_part s ds"
  using digit_part_digitpart digitpart_digit_part by blast







text \<open>
  The separators 28 to 31 are whitespace for \<^verbatim>\<open>str.strip()\<close> and not for \<^verbatim>\<open>int\<close>
  and \<^verbatim>\<open>float\<close>.
\<close>

lemma separator_not_number_space:
  "strip [CHR ''1'', CHR ''2'', CHR 0x1F] = ''12''"
  "int_of_str [CHR ''1'', CHR ''2'', CHR 0x1F] = Inl (InvalidIntLiteral [CHR ''1'', CHR ''2'', CHR 0x1F])"
  "float_of_str [CHR ''1'', CHR ''.'', CHR ''5'', CHR 0x1F] =
     Inl (InvalidFloatLiteral [CHR ''1'', CHR ''.'', CHR ''5'', CHR 0x1F])"
  "int_of_str '' 12 '' = Inr 12"
  by code_simp+

subsection \<open>The cast to int\<close>



lemma map_result_values:
  "map_result f xs = Inr ys \<Longrightarrow> list_all2 (\<lambda>x y. f x = Inr y) xs ys"
proof (induction xs arbitrary: ys)
  case Nil
  then show ?case by simp
next
  case (Cons x xs)
  then show ?case
    by (cases "f x"; cases "map_result f xs") auto
qed










end
